theory Spec2Isabelle
  imports Complex_Main
begin

section \<open>simple\_network\_sim: the trial orchestrator \<open>runSimulation\<close>\<close>

text \<open>
  The development embeds \<^verbatim>\<open>runSimulation\<close> of
  \<^verbatim>\<open>simple_network_sim/sampleUseOfModel.py\<close>. The function drives an epidemic
  model that lives in another module (\<^verbatim>\<open>network_of_populations\<close>): it deep-copies
  the network, lets \<^verbatim>\<open>exposeRegions\<close> mutate the copy's initial state, runs
  \<^verbatim>\<open>basicSimulationInternalAgeStructure\<close> on the copy and, for more than one
  trial, averages the resulting pandas frames.

  The two functions of the other module are parameters of every definition here:
  \<open>ex\<close> for \<^verbatim>\<open>exposeRegions\<close> and \<open>sim\<close> for
  \<^verbatim>\<open>basicSimulationInternalAgeStructure\<close>. Each may raise. By their types they
  read and change nothing but the arguments they are handed, which is what the calls in
  \<^verbatim>\<open>runSimulation\<close> rely on. The messages sent to the logger are left out.
\<close>

subsection \<open>Values of the \<^verbatim>\<open>total\<close> column\<close>

text \<open>
  The \<^verbatim>\<open>total\<close> column holds floating point numbers. They are modelled as real
  numbers together with the one special value that the code can produce by itself:
  \<^verbatim>\<open>NaN\<close>, which pandas writes where a label of one series is missing from the
  other. \<^verbatim>\<open>NaN\<close> absorbs addition and division. Rounding is not modelled.
  The only division of the code is the one by \<^verbatim>\<open>trials\<close> in line 101, which is
  reached with \<open>trials > 1\<close> only, so the divisor is never 0.
\<close>

datatype pyfloat = NaN | Val real

fun fadd :: "pyfloat \<Rightarrow> pyfloat \<Rightarrow> pyfloat" where
  "fadd (Val x) (Val y) = Val (x + y)"
| "fadd _ _ = NaN"

fun fdiv :: "pyfloat \<Rightarrow> int \<Rightarrow> pyfloat" where
  "fdiv (Val x) n = Val (x / of_int n)"
| "fdiv NaN n = NaN"

subsection \<open>Frames\<close>

text \<open>
  The model returns a frame with the columns \<^verbatim>\<open>time, node, age, state, total\<close>.
  \<^verbatim>\<open>set_index(["time", "node", "age", "state"])\<close> turns the first four columns into
  the row label and leaves the single column \<^verbatim>\<open>total\<close>;
  \<^verbatim>\<open>reset_index()\<close> turns the label back into columns. Row order is kept by both.
\<close>

record TimeSeriesRow =
  time :: int
  node :: string
  age :: string
  state :: string
  total :: pyfloat

type_synonym DataFrame = "TimeSeriesRow list"

type_synonym key = "int \<times> string \<times> string \<times> string"

type_synonym IndexedFrame = "(key \<times> pyfloat) list"

definition set_index :: "DataFrame \<Rightarrow> IndexedFrame" where
  "set_index df = map (\<lambda>r. ((time r, node r, age r, state r), total r)) df"

definition reset_index :: "IndexedFrame \<Rightarrow> DataFrame" where
  "reset_index ix =
     map (\<lambda>((t, n, a, s), v). \<lparr>time = t, node = n, age = a, state = s, total = v\<rparr>) ix"

datatype 'e error = IndexError | AttributeError | ValueError | ExternalFailure 'e

text \<open>
  \<^verbatim>\<open>aggregated.total += indexed.total\<close> (line 98). pandas adds the two series by
  label and then stores the sum under the labels of \<^verbatim>\<open>aggregated\<close>:
  \<^item> when both indexes are equal, the addition is positional;
  \<^item> otherwise, with unique labels on both sides, a label of \<^verbatim>\<open>aggregated\<close>
    that \<^verbatim>\<open>indexed\<close> lacks gets \<^verbatim>\<open>NaN\<close>, and a label that only
    \<^verbatim>\<open>indexed\<close> has is not stored;
  \<^item> otherwise a label is duplicated and the indexes differ. A frame of the model has
    unique keys, so this case is outside the data of the program; there pandas joins the
    two indexes and, in general, cannot store the sum under duplicate labels, a
    \<^verbatim>\<open>ValueError\<close>. The model answers with that error in the whole case, and no
    property below rests on what happens in it.
\<close>

definition series_iadd :: "IndexedFrame \<Rightarrow> IndexedFrame \<Rightarrow> 'e error + IndexedFrame" where
  "series_iadd aggregated indexed =
     (if map fst aggregated = map fst indexed
      then Inr (map (\<lambda>((k, v), (_, u)). (k, fadd v u)) (zip aggregated indexed))
      else if distinct (map fst aggregated) \<and> distinct (map fst indexed)
      then Inr (map (\<lambda>(k, v).
                  (k, case map_of indexed k of None \<Rightarrow> NaN | Some u \<Rightarrow> fadd v u))
                aggregated)
      else Inl ValueError)"

text \<open>\<^verbatim>\<open>averaged.total /= trials\<close> (line 101).\<close>

definition total_idiv :: "DataFrame \<Rightarrow> int \<Rightarrow> DataFrame" where
  "total_idiv averaged trials = map (\<lambda>r. r\<lparr>total := fdiv (total r) trials\<rparr>) averaged"

subsection \<open>Objects, the store and the calls into the model\<close>

text \<open>
  The network is an object with a field \<^verbatim>\<open>initialState\<close>; the rest of the object
  is opaque to \<^verbatim>\<open>runSimulation\<close>. Objects live in a store, a list indexed by
  address, so that the deep copy and the in-place mutation of the copy are explicit.
  The world also records every call to \<^verbatim>\<open>copy.deepcopy\<close> and to the model, in
  order, with the initial state that \<^verbatim>\<open>exposeRegions\<close> was handed.
\<close>

record ('st, 'g) NetworkOfPopulation =
  initialState :: 'st
  rest :: 'g

datatype ('infection, 'st) call =
    DeepCopy nat nat
  | ExposeRegions nat 'infection 'st
  | BasicSimulation nat int

record ('infection, 'st, 'g) world =
  heap :: "('st, 'g) NetworkOfPopulation list"
  calls :: "('infection, 'st) call list"

text \<open>
  \<^verbatim>\<open>copy.deepcopy(network)\<close>: a new object with the same content, at the next
  free address. The address \<open>a\<close> of the template is an address of the store. That the
  copy itself may fail is not modelled.
\<close>

definition deepcopy :: "nat \<Rightarrow> ('infection, 'st, 'g) world \<Rightarrow> nat \<times> ('infection, 'st, 'g) world" where
  "deepcopy a w =
     (length (heap w),
      w\<lparr>heap := heap w @ [heap w ! a],
        calls := calls w @ [DeepCopy a (length (heap w))]\<rparr>)"

text \<open>\<^verbatim>\<open>initialInfections[i]\<close> with \<open>i\<close> not negative.\<close>

definition getitem :: "'a list \<Rightarrow> nat \<Rightarrow> 'e error + 'a" where
  "getitem xs i = (if i < length xs then Inr (xs ! i) else Inl IndexError)"

text \<open>
  \<^verbatim>\<open>ss.exposeRegions(infection, disposableNetwork.initialState)\<close>: the model function
  mutates the initial state of the object at address \<open>c\<close>, or raises. What a call
  that raises has done to the object before is not modelled: the run ends there and the
  copy is never read again.
\<close>

definition exposeRegions ::
  "('infection \<Rightarrow> 'st \<Rightarrow> 'e + 'st) \<Rightarrow> 'infection \<Rightarrow> nat \<Rightarrow> ('infection, 'st, 'g) world
   \<Rightarrow> ('e error + unit) \<times> ('infection, 'st, 'g) world" where
  "exposeRegions ex infection c w =
     (let st = initialState (heap w ! c);
          w' = w\<lparr>calls := calls w @ [ExposeRegions c infection st]\<rparr>
      in case ex infection st of
           Inl e \<Rightarrow> (Inl (ExternalFailure e), w')
         | Inr st' \<Rightarrow> (Inr (), w'\<lparr>heap := (heap w)[c := (heap w ! c)\<lparr>initialState := st'\<rparr>]\<rparr>))"

text \<open>
  \<^verbatim>\<open>ss.basicSimulationInternalAgeStructure(disposableNetwork, max_time)\<close>: the model
  returns a frame and may have changed the object at address \<open>c\<close>, or raises.
\<close>

definition basicSimulationInternalAgeStructure ::
  "(('st, 'g) NetworkOfPopulation \<Rightarrow> int \<Rightarrow> 'e + DataFrame \<times> ('st, 'g) NetworkOfPopulation)
   \<Rightarrow> nat \<Rightarrow> int \<Rightarrow> ('infection, 'st, 'g) world
   \<Rightarrow> ('e error + DataFrame) \<times> ('infection, 'st, 'g) world" where
  "basicSimulationInternalAgeStructure sim c max_time w =
     (let w' = w\<lparr>calls := calls w @ [BasicSimulation c max_time]\<rparr>
      in case sim (heap w ! c) max_time of
           Inl e \<Rightarrow> (Inl (ExternalFailure e), w')
         | Inr (df, net') \<Rightarrow> (Inr df, w'\<lparr>heap := (heap w)[c := net']\<rparr>))"

subsection \<open>\<^verbatim>\<open>runSimulation\<close>\<close>

text \<open>Lines 79 to 82, the branch \<^verbatim>\<open>trials <= 1\<close>.\<close>

definition singleTrialPath ::
  "('infection \<Rightarrow> 'st \<Rightarrow> 'e + 'st)
   \<Rightarrow> (('st, 'g) NetworkOfPopulation \<Rightarrow> int \<Rightarrow> 'e + DataFrame \<times> ('st, 'g) NetworkOfPopulation)
   \<Rightarrow> nat \<Rightarrow> int \<Rightarrow> 'infection list \<Rightarrow> ('infection, 'st, 'g) world
   \<Rightarrow> ('e error + DataFrame) \<times> ('infection, 'st, 'g) world" where
  "singleTrialPath ex sim network max_time initialInfections w =
     (case deepcopy network w of (disposableNetwork, w1) \<Rightarrow>
        (case getitem initialInfections 0 of
           Inl e \<Rightarrow> (Inl e, w1)
         | Inr infection \<Rightarrow>
            (case exposeRegions ex infection disposableNetwork w1 of
               (Inl e, w2) \<Rightarrow> (Inl e, w2)
             | (Inr _, w2) \<Rightarrow>
                 basicSimulationInternalAgeStructure sim disposableNetwork max_time w2)))"

text \<open>
  Lines 86 to 98, the loop \<^verbatim>\<open>for i in range(trials)\<close>, as a recursion over the
  indexes still to run; \<open>aggregated\<close> is \<open>None\<close> until the first trial has ended.
\<close>

fun trialLoop ::
  "('infection \<Rightarrow> 'st \<Rightarrow> 'e + 'st)
   \<Rightarrow> (('st, 'g) NetworkOfPopulation \<Rightarrow> int \<Rightarrow> 'e + DataFrame \<times> ('st, 'g) NetworkOfPopulation)
   \<Rightarrow> nat \<Rightarrow> int \<Rightarrow> 'infection list \<Rightarrow> nat list \<Rightarrow> IndexedFrame option \<Rightarrow> ('infection, 'st, 'g) world
   \<Rightarrow> ('e error + IndexedFrame option) \<times> ('infection, 'st, 'g) world" where
  "trialLoop ex sim network max_time initialInfections [] aggregated w = (Inr aggregated, w)"
| "trialLoop ex sim network max_time initialInfections (i # rest_is) aggregated w =
     (case deepcopy network w of (disposableNetwork, w1) \<Rightarrow>
        (case getitem initialInfections i of
           Inl e \<Rightarrow> (Inl e, w1)
         | Inr infection \<Rightarrow>
            (case exposeRegions ex infection disposableNetwork w1 of
               (Inl e, w2) \<Rightarrow> (Inl e, w2)
             | (Inr _, w2) \<Rightarrow>
                (case basicSimulationInternalAgeStructure sim disposableNetwork max_time w2 of
                   (Inl e, w3) \<Rightarrow> (Inl e, w3)
                 | (Inr df, w3) \<Rightarrow>
                    (case aggregated of
                       None \<Rightarrow>
                         trialLoop ex sim network max_time initialInfections rest_is
                           (Some (set_index df)) w3
                     | Some agg \<Rightarrow>
                        (case series_iadd agg (set_index df) of
                           Inl e \<Rightarrow> (Inl e, w3)
                         | Inr agg' \<Rightarrow>
                             trialLoop ex sim network max_time initialInfections rest_is
                               (Some agg') w3))))))"

text \<open>\<^verbatim>\<open>range(trials)\<close>: empty when \<open>trials\<close> is not positive.\<close>

definition range_py :: "int \<Rightarrow> nat list" where
  "range_py n = [0..<nat n]"

text \<open>
  Lines 84 to 103, the branch \<^verbatim>\<open>trials > 1\<close>. Were the loop to run no trial,
  \<^verbatim>\<open>aggregated\<close> would still be \<^verbatim>\<open>None\<close> at line 100, an
  \<^verbatim>\<open>AttributeError\<close>.
\<close>

definition multiTrialPath ::
  "('infection \<Rightarrow> 'st \<Rightarrow> 'e + 'st)
   \<Rightarrow> (('st, 'g) NetworkOfPopulation \<Rightarrow> int \<Rightarrow> 'e + DataFrame \<times> ('st, 'g) NetworkOfPopulation)
   \<Rightarrow> nat \<Rightarrow> int \<Rightarrow> int \<Rightarrow> 'infection list \<Rightarrow> ('infection, 'st, 'g) world
   \<Rightarrow> ('e error + DataFrame) \<times> ('infection, 'st, 'g) world" where
  "multiTrialPath ex sim network max_time trials initialInfections w =
     (case trialLoop ex sim network max_time initialInfections (range_py trials) None w of
        (Inl e, w') \<Rightarrow> (Inl e, w')
      | (Inr None, w') \<Rightarrow> (Inl AttributeError, w')
      | (Inr (Some aggregated), w') \<Rightarrow>
          (Inr (total_idiv (reset_index aggregated) trials), w'))"

definition runSimulation ::
  "('infection \<Rightarrow> 'st \<Rightarrow> 'e + 'st)
   \<Rightarrow> (('st, 'g) NetworkOfPopulation \<Rightarrow> int \<Rightarrow> 'e + DataFrame \<times> ('st, 'g) NetworkOfPopulation)
   \<Rightarrow> nat \<Rightarrow> int \<Rightarrow> int \<Rightarrow> 'infection list \<Rightarrow> ('infection, 'st, 'g) world
   \<Rightarrow> ('e error + DataFrame) \<times> ('infection, 'st, 'g) world" where
  "runSimulation ex sim network max_time trials initialInfections w =
     (if trials \<le> 1
      then singleTrialPath ex sim network max_time initialInfections w
      else multiTrialPath ex sim network max_time trials initialInfections w)"

section \<open>The command line of the \<^verbatim>\<open>random\<close> subcommand\<close>

text \<open>
  \<^verbatim>\<open>build_args\<close> declares the options of the subcommand with
  \<^verbatim>\<open>add_argument\<close>, and \<^verbatim>\<open>main\<close> hands the parsed values to
  \<^verbatim>\<open>randomlyInfectRegions\<close>. Python values carry their type at run time, so the
  model has a type of values with one constructor for each Python type that occurs.

  An \<open>argument\<close> is what one \<^verbatim>\<open>add_argument\<close> call declares. What argparse does
  with the declarations is modelled from the point where it has found which options occur
  on the command line and with which argument strings (an occurrence is a destination and
  its strings, in command line order); how it splits the command line into occurrences is
  not modelled. argparse first stores every default as it is, then stores the value of each
  occurrence, converted by the declared \<^verbatim>\<open>type\<close>, a string staying a string when
  none is declared, and last converts the defaults that are strings of the options that
  did not occur. The conversion \<^verbatim>\<open>int\<close> is the parameter \<open>py_int\<close>.
\<close>

datatype pyval = PyNone | PyBool bool | PyInt int | PyStr string | PyPath string | PyList "pyval list"

datatype argtype = NoType | IntType | PathType

datatype nargs = NoNargs | OneOrMore

datatype action = Store | StoreTrue

record argument =
  dest :: string
  action :: action
  nargs :: nargs
  default_value :: pyval
  type_conv :: argtype

datatype cli_error = UsageError | MissingAttribute | TypeError

type_synonym namespace = "string \<rightharpoonup> pyval"

definition get_value :: "(string \<Rightarrow> int option) \<Rightarrow> argtype \<Rightarrow> string \<Rightarrow> cli_error + pyval" where
  "get_value py_int t s =
     (case t of
        NoType \<Rightarrow> Inr (PyStr s)
      | IntType \<Rightarrow> (case py_int s of None \<Rightarrow> Inl UsageError | Some n \<Rightarrow> Inr (PyInt n))
      | PathType \<Rightarrow> Inr (PyPath s))"

fun get_value_list :: "(string \<Rightarrow> int option) \<Rightarrow> argtype \<Rightarrow> string list \<Rightarrow> cli_error + pyval list" where
  "get_value_list py_int t [] = Inr []"
| "get_value_list py_int t (s # ss) =
     (case get_value py_int t s of
        Inl e \<Rightarrow> Inl e
      | Inr v \<Rightarrow> (case get_value_list py_int t ss of Inl e \<Rightarrow> Inl e | Inr vs \<Rightarrow> Inr (v # vs)))"

definition get_values :: "(string \<Rightarrow> int option) \<Rightarrow> argument \<Rightarrow> string list \<Rightarrow> cli_error + pyval" where
  "get_values py_int a strs =
     (case action a of
        StoreTrue \<Rightarrow> (if strs = [] then Inr (PyBool True) else Inl UsageError)
      | Store \<Rightarrow>
         (case nargs a of
            NoNargs \<Rightarrow> (case strs of [s] \<Rightarrow> get_value py_int (type_conv a) s | _ \<Rightarrow> Inl UsageError)
          | OneOrMore \<Rightarrow>
              (if strs = [] then Inl UsageError
               else case get_value_list py_int (type_conv a) strs of
                      Inl e \<Rightarrow> Inl e | Inr vs \<Rightarrow> Inr (PyList vs))))"

fun set_defaults :: "argument list \<Rightarrow> namespace \<Rightarrow> namespace" where
  "set_defaults [] ns = ns"
| "set_defaults (a # as) ns = set_defaults as (ns(dest a \<mapsto> default_value a))"

fun take_action ::
  "(string \<Rightarrow> int option) \<Rightarrow> argument list \<Rightarrow> (string \<times> string list) list \<Rightarrow> namespace
   \<Rightarrow> cli_error + namespace" where
  "take_action py_int arguments [] ns = Inr ns"
| "take_action py_int arguments ((d, strs) # occurrences) ns =
     (case find (\<lambda>a. dest a = d) arguments of
        None \<Rightarrow> Inl UsageError
      | Some a \<Rightarrow>
         (case get_values py_int a strs of
            Inl e \<Rightarrow> Inl e
          | Inr v \<Rightarrow> take_action py_int arguments occurrences (ns(d \<mapsto> v))))"

fun convert_defaults ::
  "(string \<Rightarrow> int option) \<Rightarrow> argument list \<Rightarrow> string list \<Rightarrow> namespace \<Rightarrow> cli_error + namespace" where
  "convert_defaults py_int [] seen ns = Inr ns"
| "convert_defaults py_int (a # as) seen ns =
     (if dest a \<in> set seen then convert_defaults py_int as seen ns
      else case default_value a of
             PyStr s \<Rightarrow>
               (case get_value py_int (type_conv a) s of
                  Inl e \<Rightarrow> Inl e
                | Inr v \<Rightarrow> convert_defaults py_int as seen (ns(dest a \<mapsto> v)))
           | _ \<Rightarrow> convert_defaults py_int as seen ns)"

definition parse_args ::
  "(string \<Rightarrow> int option) \<Rightarrow> argument list \<Rightarrow> (string \<times> string list) list \<Rightarrow> cli_error + namespace" where
  "parse_args py_int arguments occurrences =
     (case take_action py_int arguments occurrences (set_defaults arguments Map.empty) of
        Inl e \<Rightarrow> Inl e
      | Inr ns \<Rightarrow> convert_defaults py_int arguments (map fst occurrences) ns)"

text \<open>Lines 230 to 242: the four options of \<^verbatim>\<open>randomCmd\<close>.\<close>

definition randomCmd :: "argument list" where
  "randomCmd =
     [\<lparr>dest = ''regions'', action = Store, nargs = NoNargs, default_value = PyInt 1,
       type_conv = NoType\<rparr>,
      \<lparr>dest = ''age_groups'', action = Store, nargs = OneOrMore,
       default_value = PyList [PyStr ''[17,70)''], type_conv = NoType\<rparr>,
      \<lparr>dest = ''trials'', action = Store, nargs = NoNargs, default_value = PyInt 100,
       type_conv = IntType\<rparr>,
      \<lparr>dest = ''infected'', action = Store, nargs = NoNargs, default_value = PyInt 100,
       type_conv = IntType\<rparr>]"

text \<open>
  Lines 42 to 44 of \<^verbatim>\<open>main\<close>: one call of \<^verbatim>\<open>randomlyInfectRegions\<close> for
  each trial, with \<^verbatim>\<open>args.regions\<close>, \<^verbatim>\<open>args.age_groups\<close> and
  \<^verbatim>\<open>args.infected\<close> (the network argument is left out). The result is the list
  of the calls made.
\<close>

datatype seeding_call = RandomlyInfectRegions pyval pyval pyval

definition getattr :: "namespace \<Rightarrow> string \<Rightarrow> cli_error + pyval" where
  "getattr ns name = (case ns name of None \<Rightarrow> Inl MissingAttribute | Some v \<Rightarrow> Inr v)"

definition main_random :: "namespace \<Rightarrow> cli_error + seeding_call list" where
  "main_random args =
     (case getattr args ''trials'' of
        Inl e \<Rightarrow> Inl e
      | Inr (PyInt n) \<Rightarrow>
          (if n \<le> 0 then Inr []
           else case getattr args ''regions'' of
             Inl e \<Rightarrow> Inl e
           | Inr regions \<Rightarrow>
              (case getattr args ''age_groups'' of
                 Inl e \<Rightarrow> Inl e
               | Inr age_groups \<Rightarrow>
                  (case getattr args ''infected'' of
                     Inl e \<Rightarrow> Inl e
                   | Inr infected \<Rightarrow>
                       Inr (replicate (nat n) (RandomlyInfectRegions regions age_groups infected)))))
      | Inr _ \<Rightarrow> Inl TypeError)"

section \<open>Notions used to state and prove the properties\<close>

subsection \<open>One trial\<close>

text \<open>
  Both branches run the same three statements for a trial: the deep copy, the exposure
  of the copy and the run of the model on the copy. \<open>oneTrial\<close> names that block,
  so that facts about it are proved once.
\<close>

definition oneTrial ::
  "('infection \<Rightarrow> 'st \<Rightarrow> 'e + 'st)
   \<Rightarrow> (('st, 'g) NetworkOfPopulation \<Rightarrow> int \<Rightarrow> 'e + DataFrame \<times> ('st, 'g) NetworkOfPopulation)
   \<Rightarrow> nat \<Rightarrow> int \<Rightarrow> 'infection list \<Rightarrow> nat \<Rightarrow> ('infection, 'st, 'g) world
   \<Rightarrow> ('e error + DataFrame) \<times> ('infection, 'st, 'g) world" where
  "oneTrial ex sim network max_time initialInfections i w =
     (case deepcopy network w of (disposableNetwork, w1) \<Rightarrow>
        (case getitem initialInfections i of
           Inl e \<Rightarrow> (Inl e, w1)
         | Inr infection \<Rightarrow>
            (case exposeRegions ex infection disposableNetwork w1 of
               (Inl e, w2) \<Rightarrow> (Inl e, w2)
             | (Inr _, w2) \<Rightarrow>
                 basicSimulationInternalAgeStructure sim disposableNetwork max_time w2)))"

text \<open>
  The calls that the trials with the indexes \<open>js\<close> make when none of them fails, the
  first of them copying to address \<open>c\<close>.
\<close>

fun trialCalls ::
  "nat \<Rightarrow> 'st \<Rightarrow> int \<Rightarrow> 'infection list \<Rightarrow> nat \<Rightarrow> nat list \<Rightarrow> ('infection, 'st) call list" where
  "trialCalls a st mt infs c [] = []"
| "trialCalls a st mt infs c (i # js) =
     [DeepCopy a c, ExposeRegions c (infs ! i) st, BasicSimulation c mt]
     @ trialCalls a st mt infs (Suc c) js"

subsection \<open>Frames by key\<close>

text \<open>
  The key of a row, the total that an indexed frame holds for a key
  (\<^verbatim>\<open>NaN\<close> for none), the addition by label, and the accumulator after some
  frames have been added to it.
\<close>

definition key_of :: "TimeSeriesRow \<Rightarrow> key" where
  "key_of r = (time r, node r, age r, state r)"

definition total_at :: "IndexedFrame \<Rightarrow> key \<Rightarrow> pyfloat" where
  "total_at ix k = (case map_of ix k of None \<Rightarrow> NaN | Some u \<Rightarrow> u)"

definition aligned_add :: "IndexedFrame \<Rightarrow> IndexedFrame \<Rightarrow> IndexedFrame" where
  "aligned_add aggregated indexed =
     map (\<lambda>(k, v). (k, case map_of indexed k of None \<Rightarrow> NaN | Some u \<Rightarrow> fadd v u)) aggregated"

fun accumulate :: "IndexedFrame option \<Rightarrow> IndexedFrame \<Rightarrow> IndexedFrame option" where
  "accumulate None ix = Some ix"
| "accumulate (Some agg) ix = Some (aligned_add agg ix)"

definition keys_distinct :: "IndexedFrame option \<Rightarrow> bool" where
  "keys_distinct aggregated = (case aggregated of None \<Rightarrow> True | Some agg \<Rightarrow> distinct (map fst agg))"

text \<open>
  The frame that the averaging produces from the frames \<open>R 0\<close>, \<open>R 1\<close>, ... of the
  trials: the rows of the first trial, each with the total divided after the totals that
  the later trials hold for its key have been added, in trial order.
\<close>

definition averaged_rows :: "(nat \<Rightarrow> DataFrame) \<Rightarrow> int \<Rightarrow> DataFrame" where
  "averaged_rows R trials =
     map (\<lambda>r. r\<lparr>total :=
            fdiv (foldl fadd (total r)
                   (map (\<lambda>i. total_at (set_index (R i)) (key_of r)) [1..<nat trials]))
                 trials\<rparr>)
       (R 0)"

subsection \<open>A monitor for the calls\<close>

text \<open>
  \<open>isolated a st infs n0 n cur cs\<close> reads the calls \<open>cs\<close> and holds when every
  deep copy copies the template \<open>a\<close> to the next free address \<open>n\<close>, every call to the
  model acts on the newest copy \<open>cur\<close> and on nothing else, and every call to
  \<^verbatim>\<open>exposeRegions\<close> is handed the initial state \<open>st\<close> of the template and the
  infection set of its own trial: the copy at address \<open>n0 + i\<close> belongs to trial \<open>i\<close>.
\<close>

fun isolated ::
  "nat \<Rightarrow> 'st \<Rightarrow> 'infection list \<Rightarrow> nat \<Rightarrow> nat \<Rightarrow> nat option \<Rightarrow> ('infection, 'st) call list \<Rightarrow> bool" where
  "isolated a st infs n0 n cur [] = True"
| "isolated a st infs n0 n cur (DeepCopy src dst # cs) =
     (src = a \<and> dst = n \<and> isolated a st infs n0 (Suc n) (Some n) cs)"
| "isolated a st infs n0 n cur (ExposeRegions c infection s # cs) =
     (cur = Some c \<and> s = st \<and> n0 \<le> c \<and> c - n0 < length infs \<and> infection = infs ! (c - n0)
      \<and> isolated a st infs n0 n cur cs)"
| "isolated a st infs n0 n cur (BasicSimulation c t # cs) =
     (cur = Some c \<and> isolated a st infs n0 n cur cs)"

subsection \<open>A small model to run the orchestrator on\<close>

text \<open>
  One node, one age group, the compartments S and I. The state is the pair of the two
  counts; an infection set is the number of people to move from S to I; the simulation
  reports the two counts at time 0 and leaves the network as it is. The template holds
  1000 susceptible people.
\<close>

definition toy_exposeRegions :: "real \<Rightarrow> real \<times> real \<Rightarrow> unit + real \<times> real" where
  "toy_exposeRegions n st = Inr (fst st - n, snd st + n)"

definition toy_frame :: "real \<times> real \<Rightarrow> DataFrame" where
  "toy_frame st =
     [\<lparr>time = 0, node = ''n'', age = ''a'', state = ''S'', total = Val (fst st)\<rparr>,
      \<lparr>time = 0, node = ''n'', age = ''a'', state = ''I'', total = Val (snd st)\<rparr>]"

definition toy_simulation ::
  "(real \<times> real, unit) NetworkOfPopulation \<Rightarrow> int
   \<Rightarrow> unit + DataFrame \<times> (real \<times> real, unit) NetworkOfPopulation" where
  "toy_simulation net max_time = Inr (toy_frame (initialState net), net)"

definition toy_world :: "(real, real \<times> real, unit) world" where
  "toy_world = \<lparr>heap = [\<lparr>initialState = (1000, 0), rest = ()\<rparr>], calls = []\<rparr>"

definition toy_state :: "nat \<Rightarrow> real \<times> real" where
  "toy_state i = (1000 - 10 * (real i + 1), 10 * (real i + 1))"


text \<open>
  A variant of the simulation that leaves out the rows whose total is 0, so that the
  key space of its frame depends on the infection set.
\<close>

definition sparse_simulation ::
  "(real \<times> real, unit) NetworkOfPopulation \<Rightarrow> int
   \<Rightarrow> unit + DataFrame \<times> (real \<times> real, unit) NetworkOfPopulation" where
  "sparse_simulation net max_time =
     Inr (filter (\<lambda>r. total r \<noteq> Val 0) (toy_frame (initialState net)), net)"

text \<open>A conversion to run the command line model on: decimal digits only.\<close>

definition digits_int :: "string \<Rightarrow> int option" where
  "digits_int s =
     (if s \<noteq> [] \<and> list_all (\<lambda>c. c \<in> set ''0123456789'') s
      then Some (foldl (\<lambda>n c. 10 * n + (int (of_char c) - 48)) 0 s)
      else None)"

section \<open>Lemmas\<close>

subsection \<open>One trial and the loop\<close>

lemma singleTrialPath_oneTrial:
  "singleTrialPath ex sim a mt infs w = oneTrial ex sim a mt infs 0 w"
  by (simp add: singleTrialPath_def oneTrial_def)

lemma trialLoop_Cons:
  "trialLoop ex sim a mt infs (i # js) aggregated w =
     (case oneTrial ex sim a mt infs i w of
        (Inl e, w3) \<Rightarrow> (Inl e, w3)
      | (Inr df, w3) \<Rightarrow>
          (case aggregated of
             None \<Rightarrow> trialLoop ex sim a mt infs js (Some (set_index df)) w3
           | Some agg \<Rightarrow>
               (case series_iadd agg (set_index df) of
                  Inl e \<Rightarrow> (Inl e, w3)
                | Inr agg' \<Rightarrow> trialLoop ex sim a mt infs js (Some agg') w3)))"
  by (simp add: oneTrial_def split: prod.splits sum.splits)

lemma trialLoop_Nil:
  "trialLoop ex sim a mt infs [] aggregated w = (Inr aggregated, w)"
  by simp

declare trialLoop.simps [simp del]

lemma oneTrial_success:
  assumes "i < length infs"
    and "ex (infs ! i) (initialState (heap w ! a)) = Inr st'"
    and "sim ((heap w ! a)\<lparr>initialState := st'\<rparr>) mt = Inr (df, net')"
  shows "oneTrial ex sim a mt infs i w =
           (Inr df,
            \<lparr>heap = heap w @ [net'],
             calls = calls w @ [DeepCopy a (length (heap w)),
                                ExposeRegions (length (heap w)) (infs ! i) (initialState (heap w ! a)),
                                BasicSimulation (length (heap w)) mt]\<rparr>)"
  using assms
  by (simp add: oneTrial_def deepcopy_def getitem_def exposeRegions_def
      basicSimulationInternalAgeStructure_def Let_def)

lemma oneTrial_IndexError:
  assumes "\<not> i < length infs"
  shows "oneTrial ex sim a mt infs i w =
           (Inl IndexError,
            \<lparr>heap = heap w @ [heap w ! a], calls = calls w @ [DeepCopy a (length (heap w))]\<rparr>)"
  using assms by (simp add: oneTrial_def deepcopy_def getitem_def)

subsection \<open>Frames\<close>

lemma reset_set_index: "reset_index (set_index df) = df"
  by (simp add: reset_index_def set_index_def map_idI)

lemma fdiv_one: "fdiv v 1 = v"
  by (cases v) simp_all

lemma total_idiv_one: "total_idiv df 1 = df"
  by (simp add: total_idiv_def fdiv_one map_idI)

lemma positional_eq_aligned:
  assumes "distinct (map fst xs)" and "map fst xs = map fst ys"
  shows "map (\<lambda>((k, v), (_, u)). (k, fadd v u)) (zip xs ys) = aligned_add xs ys"
proof (rule nth_equalityI)
  have len: "length xs = length ys"
    using assms(2) by (rule map_eq_imp_length_eq)
  then show "length (map (\<lambda>((k, v), (_, u)). (k, fadd v u)) (zip xs ys)) = length (aligned_add xs ys)"
    by (simp add: aligned_add_def)
  fix p
  assume "p < length (map (\<lambda>((k, v), (_, u)). (k, fadd v u)) (zip xs ys))"
  with len have p: "p < length xs" "p < length ys"
    by simp_all
  have "map fst xs ! p = map fst ys ! p"
    using assms(2) by simp
  with p have k: "fst (ys ! p) = fst (xs ! p)"
    by simp
  have "distinct (map fst ys)"
    using assms by simp
  moreover have "(fst (ys ! p), snd (ys ! p)) \<in> set ys"
    using p(2) by simp
  ultimately have "map_of ys (fst (ys ! p)) = Some (snd (ys ! p))"
    by (simp only: map_of_eq_Some_iff)
  with k have "map_of ys (fst (xs ! p)) = Some (snd (ys ! p))"
    by simp
  with p show "map (\<lambda>((k, v), (_, u)). (k, fadd v u)) (zip xs ys) ! p = aligned_add xs ys ! p"
    by (simp add: aligned_add_def case_prod_beta)
qed

lemma series_iadd_distinct:
  assumes "distinct (map fst agg)" and "distinct (map fst ix)"
  shows "series_iadd agg ix = Inr (aligned_add agg ix)"
  using assms positional_eq_aligned [of agg ix]
  by (simp add: series_iadd_def aligned_add_def)

lemma keys_aligned_add: "map fst (aligned_add agg ix) = map fst agg"
  by (simp add: aligned_add_def split_def comp_def)

lemma keys_distinct_accumulate:
  "keys_distinct aggregated \<Longrightarrow> distinct (map fst ix) \<Longrightarrow> keys_distinct (accumulate aggregated ix)"
  by (cases aggregated) (simp_all add: keys_distinct_def keys_aligned_add)

lemma trialLoop_success:
  assumes "a < length (heap w)"
    and "heap w ! a = tmpl"
    and "\<forall>i\<in>set js. i < length infs
            \<and> (ex :: 'infection \<Rightarrow> 'st \<Rightarrow> 'e + 'st) (infs ! i) (initialState tmpl) = Inr (E i)
            \<and> sim (tmpl\<lparr>initialState := E i\<rparr>) mt = Inr (R i, N i)
            \<and> distinct (map fst (set_index (R i)))"
    and "keys_distinct aggregated"
  shows "trialLoop ex sim a mt infs js aggregated w =
           (Inr (foldl accumulate aggregated (map (\<lambda>i. set_index (R i)) js)),
            \<lparr>heap = heap w @ map N js,
             calls = calls w @ trialCalls a (initialState tmpl) mt infs (length (heap w)) js\<rparr>)"
  using assms
proof (induction js arbitrary: w aggregated)
  case Nil
  then show ?case by (simp add: trialLoop_Nil)
next
  case (Cons i js)
  let ?w3 = "\<lparr>heap = heap w @ [N i],
              calls = calls w @ [DeepCopy a (length (heap w)),
                                 ExposeRegions (length (heap w)) (infs ! i) (initialState tmpl),
                                 BasicSimulation (length (heap w)) mt]\<rparr>"
  from Cons.prems have i: "i < length infs" "ex (infs ! i) (initialState (heap w ! a)) = Inr (E i)"
    "sim ((heap w ! a)\<lparr>initialState := E i\<rparr>) mt = Inr (R i, N i)"
    "distinct (map fst (set_index (R i)))"
    by simp_all
  have one: "oneTrial ex sim a mt infs i w = (Inr (R i), ?w3)"
    using oneTrial_success [of i infs ex w a "E i" sim mt "R i" "N i"] i Cons.prems(2) by simp
  have a3: "a < length (heap ?w3)" "heap ?w3 ! a = tmpl"
    using Cons.prems(1,2) by (simp_all add: nth_append)
  have js: "\<forall>i\<in>set js. i < length infs
            \<and> ex (infs ! i) (initialState tmpl) = Inr (E i)
            \<and> sim (tmpl\<lparr>initialState := E i\<rparr>) mt = Inr (R i, N i)
            \<and> distinct (map fst (set_index (R i)))"
    using Cons.prems(3) by simp
  have kd: "keys_distinct (accumulate aggregated (set_index (R i)))"
    using Cons.prems(4) i(4) by (rule keys_distinct_accumulate)
  have step: "trialLoop ex sim a mt infs (i # js) aggregated w =
                trialLoop ex sim a mt infs js (accumulate aggregated (set_index (R i))) ?w3"
  proof (cases aggregated)
    case None
    then show ?thesis by (simp add: trialLoop_Cons one)
  next
    case (Some agg)
    with Cons.prems(4) have "distinct (map fst agg)"
      by (simp add: keys_distinct_def)
    then have "(series_iadd agg (set_index (R i)) :: 'e error + IndexedFrame)
                 = Inr (aligned_add agg (set_index (R i)))"
      using i(4) by (rule series_iadd_distinct)
    with Some show ?thesis by (simp add: trialLoop_Cons one)
  qed
  show ?case
    unfolding step Cons.IH [OF a3 js kd] by simp
qed

lemma fadd_NaN_right: "fadd v NaN = NaN"
  by (cases v) simp_all

lemma aligned_add_total_at:
  "aligned_add agg ix = map (\<lambda>(k, v). (k, fadd v (total_at ix k))) agg"
  by (auto simp: aligned_add_def total_at_def fadd_NaN_right split: option.splits)

lemma foldl_aligned_add:
  "foldl aligned_add agg ixs =
     map (\<lambda>(k, v). (k, foldl fadd v (map (\<lambda>ix. total_at ix k) ixs))) agg"
proof (induction ixs arbitrary: agg)
  case Nil
  show ?case by simp
next
  case (Cons ix ixs)
  show ?case
    by (simp add: Cons.IH) (simp add: aligned_add_total_at case_prod_beta)
qed

lemma foldl_accumulate_Some:
  "foldl accumulate (Some agg) ixs = Some (foldl aligned_add agg ixs)"
  by (induction ixs arbitrary: agg) simp_all

lemma set_index_key_of: "set_index df = map (\<lambda>r. (key_of r, total r)) df"
  by (simp add: set_index_def key_of_def)

lemma reset_index_row:
  "reset_index (map (\<lambda>r. (key_of r, f r)) df) = map (\<lambda>r. r\<lparr>total := f r\<rparr>) df"
  by (simp add: reset_index_def key_of_def)

lemma range_py_split: "1 < n \<Longrightarrow> range_py n = 0 # [1..<nat n]"
  by (simp add: range_py_def upt_rec)

subsection \<open>Several trials that all succeed\<close>

lemma runSimulation_multi:
  assumes "1 < trials"
    and "a < length (heap w)"
    and "\<forall>i<nat trials. i < length infs
            \<and> (ex :: 'infection \<Rightarrow> 'st \<Rightarrow> 'e + 'st) (infs ! i) (initialState (heap w ! a)) = Inr (E i)
            \<and> sim ((heap w ! a)\<lparr>initialState := E i\<rparr>) mt = Inr (R i, N i)
            \<and> distinct (map fst (set_index (R i)))"
  shows "runSimulation ex sim a mt trials infs w =
           (Inr (averaged_rows R trials),
            \<lparr>heap = heap w @ map N (range_py trials),
             calls = calls w @ trialCalls a (initialState (heap w ! a)) mt infs (length (heap w))
                                 (range_py trials)\<rparr>)"
proof -
  have "\<forall>i\<in>set (range_py trials). i < length infs
            \<and> ex (infs ! i) (initialState (heap w ! a)) = Inr (E i)
            \<and> sim ((heap w ! a)\<lparr>initialState := E i\<rparr>) mt = Inr (R i, N i)
            \<and> distinct (map fst (set_index (R i)))"
    using assms(3) by (simp add: range_py_def)
  then have loop: "trialLoop ex sim a mt infs (range_py trials) None w =
           (Inr (foldl accumulate None (map (\<lambda>i. set_index (R i)) (range_py trials))),
            \<lparr>heap = heap w @ map N (range_py trials),
             calls = calls w @ trialCalls a (initialState (heap w ! a)) mt infs (length (heap w))
                                 (range_py trials)\<rparr>)"
    using trialLoop_success [of a w "heap w ! a" "range_py trials" infs ex E sim mt R N None] assms(2)
    by (simp add: keys_distinct_def)
  have agg: "foldl accumulate None (map (\<lambda>i. set_index (R i)) (range_py trials)) =
          Some (map (\<lambda>r. (key_of r,
                   foldl fadd (total r)
                     (map (\<lambda>i. total_at (set_index (R i)) (key_of r)) [1..<nat trials]))) (R 0))"
    using assms(1)
    by (simp add: range_py_split foldl_accumulate_Some foldl_aligned_add comp_def)
       (simp add: set_index_key_of)
  show ?thesis
    using assms(1)
    by (simp add: runSimulation_def multiTrialPath_def loop agg reset_index_row
        total_idiv_def averaged_rows_def)
qed

lemma key_of_total_update: "key_of (r\<lparr>total := v\<rparr>) = key_of r"
  by (simp add: key_of_def)

lemma keys_set_index: "map fst (set_index df) = map key_of df"
  by (simp add: set_index_key_of comp_def)

lemma keys_averaged_rows: "map key_of (averaged_rows R trials) = map key_of (R 0)"
  by (simp add: averaged_rows_def comp_def key_of_total_update)


lemma total_at_missing:
  assumes "k \<notin> key_of ` set df"
  shows "total_at (set_index df) k = NaN"
proof -
  have "k \<notin> fst ` set (set_index df)"
    using assms by (auto simp: set_index_key_of)
  then have "map_of (set_index df) k = None"
    by (simp add: map_of_eq_None_iff)
  then show ?thesis by (simp add: total_at_def)
qed

lemma foldl_fadd_NaN: "foldl fadd NaN xs = NaN"
  by (induction xs) simp_all

lemma foldl_fadd_has_NaN: "NaN \<in> set xs \<Longrightarrow> foldl fadd v xs = NaN"
  by (induction xs arbitrary: v) (auto simp: fadd_NaN_right foldl_fadd_NaN)



subsection \<open>The loop in parts, and its calls\<close>

lemma upt_split_at:
  assumes "m < n"
  shows "[0..<n] = [0..<m] @ m # [Suc m..<n]"
proof -
  from assms obtain k where "n = m + k"
    by (metis less_imp_le le_Suc_ex)
  then have "[0..<n] = [0..<m] @ [m..<n]"
    using upt_add_eq_append [of 0 m k] by simp
  with assms show ?thesis
    by (simp add: upt_conv_Cons)
qed

lemma trialLoop_append:
  "trialLoop ex sim a mt infs (js @ ks) aggregated w =
     (case trialLoop ex sim a mt infs js aggregated w of
        (Inl e, w') \<Rightarrow> (Inl e, w')
      | (Inr aggregated', w') \<Rightarrow> trialLoop ex sim a mt infs ks aggregated' w')"
  by (induction js arbitrary: aggregated w)
     (simp_all add: trialLoop_Nil trialLoop_Cons split: prod.splits sum.splits option.splits)

lemma trialLoop_bad_index:
  assumes "\<exists>i\<in>set js. \<not> i < length infs"
  shows "\<exists>e w'. trialLoop ex sim a mt infs js aggregated w = (Inl e, w')"
  using assms
proof (induction js arbitrary: aggregated w)
  case Nil
  then show ?case by simp
next
  case (Cons i js)
  obtain r w3 where one: "oneTrial ex sim a mt infs i w = (r, w3)"
    by (cases "oneTrial ex sim a mt infs i w")
  show ?case
  proof (cases r)
    case (Inl e)
    with one show ?thesis by (simp add: trialLoop_Cons)
  next
    case (Inr df)
    with one have "i < length infs"
      using oneTrial_IndexError [of i infs ex sim a mt w] by auto
    with Cons.prems have "\<exists>i\<in>set js. \<not> i < length infs"
      by auto
    note IH = Cons.IH [OF this]
    show ?thesis
    proof (cases aggregated)
      case None
      with one Inr IH show ?thesis by (simp add: trialLoop_Cons)
    next
      case (Some agg)
      with one Inr IH show ?thesis
        by (simp add: trialLoop_Cons split: sum.splits)
    qed
  qed
qed

lemma oneTrial_isolated:
  assumes "length (heap w) = n0 + i"
  shows "\<exists>x cs. heap (snd (oneTrial ex sim a mt infs i w)) = heap w @ [x]
           \<and> calls (snd (oneTrial ex sim a mt infs i w)) = calls w @ cs
           \<and> (\<forall>cur more_calls.
                 isolated a (initialState (heap w ! a)) infs n0 (length (heap w)) cur (cs @ more_calls)
                 = isolated a (initialState (heap w ! a)) infs n0 (Suc (length (heap w)))
                     (Some (length (heap w))) more_calls)"
proof (cases "i < length infs")
  case False
  then show ?thesis
    by (simp add: oneTrial_IndexError)
next
  case True
  show ?thesis
  proof (cases "ex (infs ! i) (initialState (heap w ! a))")
    case (Inl e)
    with True have "snd (oneTrial ex sim a mt infs i w) =
        \<lparr>heap = heap w @ [heap w ! a],
         calls = calls w @ [DeepCopy a (length (heap w)),
                            ExposeRegions (length (heap w)) (infs ! i) (initialState (heap w ! a))]\<rparr>"
      by (simp add: oneTrial_def deepcopy_def getitem_def exposeRegions_def Let_def)
    with True assms show ?thesis by simp
  next
    case (Inr st')
    show ?thesis
    proof (cases "sim ((heap w ! a)\<lparr>initialState := st'\<rparr>) mt")
      case (Inl e)
      with True Inr have "snd (oneTrial ex sim a mt infs i w) =
          \<lparr>heap = heap w @ [(heap w ! a)\<lparr>initialState := st'\<rparr>],
           calls = calls w @ [DeepCopy a (length (heap w)),
                              ExposeRegions (length (heap w)) (infs ! i) (initialState (heap w ! a)),
                              BasicSimulation (length (heap w)) mt]\<rparr>"
        by (simp add: oneTrial_def deepcopy_def getitem_def exposeRegions_def
            basicSimulationInternalAgeStructure_def Let_def)
      with True assms show ?thesis by simp
    next
      case (Inr p)
      obtain df net' where p: "p = (df, net')"
        by (cases p)
      from oneTrial_success [where ex = ex and sim = sim and i = i and infs = infs and w = w
          and a = a and st' = st' and mt = mt and df = df and net' = net']
        True \<open>ex (infs ! i) (initialState (heap w ! a)) = Inr st'\<close> Inr p
      have "snd (oneTrial ex sim a mt infs i w) =
          \<lparr>heap = heap w @ [net'],
           calls = calls w @ [DeepCopy a (length (heap w)),
                              ExposeRegions (length (heap w)) (infs ! i) (initialState (heap w ! a)),
                              BasicSimulation (length (heap w)) mt]\<rparr>"
        by simp
      with True assms show ?thesis by simp
    qed
  qed
qed

lemma trialLoop_Cons_snd:
  "snd (trialLoop ex sim a mt infs (i # js) aggregated w) = snd (oneTrial ex sim a mt infs i w)
   \<or> (\<exists>aggregated'. snd (trialLoop ex sim a mt infs (i # js) aggregated w) =
          snd (trialLoop ex sim a mt infs js aggregated' (snd (oneTrial ex sim a mt infs i w))))"
  by (auto simp: trialLoop_Cons split: prod.splits sum.splits option.splits)

lemma trialLoop_isolated:
  assumes "a < length (heap w)" and "length (heap w) = n0 + k"
  shows "\<exists>xs cs. heap (snd (trialLoop ex sim a mt infs [k..<m] aggregated w)) = heap w @ xs
           \<and> calls (snd (trialLoop ex sim a mt infs [k..<m] aggregated w)) = calls w @ cs
           \<and> (\<forall>cur. isolated a (initialState (heap w ! a)) infs n0 (length (heap w)) cur cs)"
  using assms
proof (induction "m - k" arbitrary: k w aggregated)
  case 0
  then show ?case by (simp add: trialLoop_Nil)
next
  case (Suc d)
  then have km: "k < m" and up: "[k..<m] = k # [Suc k..<m]"
    by (simp_all add: upt_conv_Cons)
  let ?w3 = "snd (oneTrial ex sim a mt infs k w)"
  let ?st = "initialState (heap w ! a)"
  from oneTrial_isolated [OF Suc.prems(2), of ex sim a mt infs]
  obtain x cs1 where h3: "heap ?w3 = heap w @ [x]" and c3: "calls ?w3 = calls w @ cs1"
    and iso1: "\<And>cur more_calls.
                 isolated a ?st infs n0 (length (heap w)) cur (cs1 @ more_calls)
                 = isolated a ?st infs n0 (Suc (length (heap w))) (Some (length (heap w))) more_calls"
    by blast
  from trialLoop_Cons_snd [of ex sim a mt infs k "[Suc k..<m]" aggregated w]
  show ?case
  proof
    assume "snd (trialLoop ex sim a mt infs (k # [Suc k..<m]) aggregated w) = ?w3"
    moreover have "\<forall>cur. isolated a ?st infs n0 (length (heap w)) cur cs1"
      using iso1 [of _ "[]"] by simp
    ultimately show ?thesis
      using h3 c3 up by auto
  next
    assume "\<exists>aggregated'. snd (trialLoop ex sim a mt infs (k # [Suc k..<m]) aggregated w) =
              snd (trialLoop ex sim a mt infs [Suc k..<m] aggregated' ?w3)"
    then obtain aggregated' where
      eq: "snd (trialLoop ex sim a mt infs (k # [Suc k..<m]) aggregated w) =
              snd (trialLoop ex sim a mt infs [Suc k..<m] aggregated' ?w3)"
      by blast
    have d: "d = m - Suc k"
      using Suc.hyps(2) by simp
    have a3: "a < length (heap ?w3)" and l3: "length (heap ?w3) = n0 + Suc k"
      and t3: "heap ?w3 ! a = heap w ! a"
      using Suc.prems h3 by (simp_all add: nth_append)
    from Suc.hyps(1) [OF d a3 l3, of aggregated']
    obtain xs cs2 where
      h: "heap (snd (trialLoop ex sim a mt infs [Suc k..<m] aggregated' ?w3)) = heap ?w3 @ xs"
      and c: "calls (snd (trialLoop ex sim a mt infs [Suc k..<m] aggregated' ?w3)) = calls ?w3 @ cs2"
      and iso2: "\<And>cur. isolated a (initialState (heap ?w3 ! a)) infs n0 (length (heap ?w3)) cur cs2"
      by blast
    have "\<forall>cur. isolated a ?st infs n0 (length (heap w)) cur (cs1 @ cs2)"
      using iso1 iso2 [of "Some (length (heap w))"] t3 h3 by simp
    then show ?thesis
      using eq h c h3 c3 up by auto
  qed
qed

lemma multiTrialPath_snd:
  "snd (multiTrialPath ex sim a mt trials infs w) =
     snd (trialLoop ex sim a mt infs (range_py trials) None w)"
  by (simp add: multiTrialPath_def split: prod.splits sum.splits option.splits)

subsection \<open>The command line\<close>

lemma convert_defaults_randomCmd: "convert_defaults py_int randomCmd seen ns = Inr ns"
  by (simp add: randomCmd_def)

lemma set_defaults_randomCmd_regions: "set_defaults randomCmd ns ''regions'' = Some (PyInt 1)"
  by (simp add: randomCmd_def)

lemma get_values_regions:
  assumes "find (\<lambda>a. dest a = ''regions'') randomCmd = Some a"
    and "get_values py_int a strs = Inr v"
  shows "\<exists>s. v = PyStr s"
  using assms
  by (auto simp: randomCmd_def get_values_def get_value_def split: list.splits)

lemma take_action_regions:
  assumes "take_action py_int randomCmd occurrences ns = Inr ns'"
  shows "(''regions'' \<in> fst ` set occurrences \<longrightarrow> (\<exists>s. ns' ''regions'' = Some (PyStr s)))
       \<and> (''regions'' \<notin> fst ` set occurrences \<longrightarrow> ns' ''regions'' = ns ''regions'')"
  using assms
proof (induction occurrences arbitrary: ns)
  case Nil
  then show ?case by simp
next
  case (Cons occ occurrences)
  obtain d strs where occ: "occ = (d, strs)"
    by (cases occ)
  from Cons.prems occ obtain a v where a: "find (\<lambda>a. dest a = d) randomCmd = Some a"
    and v: "get_values py_int a strs = Inr v"
    and rest: "take_action py_int randomCmd occurrences (ns(d \<mapsto> v)) = Inr ns'"
    by (auto split: option.splits sum.splits)
  note IH = Cons.IH [OF rest]
  show ?case
  proof (cases "d = ''regions''")
    case True
    with a v obtain s where "v = PyStr s"
      using get_values_regions by blast
    with True IH occ show ?thesis
      by (cases "''regions'' \<in> fst ` set occurrences") auto
  next
    case False
    with IH occ show ?thesis by auto
  qed
qed

lemma parse_args_regions:
  assumes "parse_args py_int randomCmd occurrences = Inr args"
  shows "(''regions'' \<in> fst ` set occurrences \<longrightarrow> (\<exists>s. args ''regions'' = Some (PyStr s)))
       \<and> (''regions'' \<notin> fst ` set occurrences \<longrightarrow> args ''regions'' = Some (PyInt 1))"
proof -
  from assms have "take_action py_int randomCmd occurrences (set_defaults randomCmd Map.empty) = Inr args"
    by (simp add: parse_args_def convert_defaults_randomCmd split: sum.splits)
  from take_action_regions [OF this] show ?thesis
    by (simp add: set_defaults_randomCmd_regions)
qed

section \<open>The properties\<close>

subsection \<open>The two branches agree on one trial\<close>

text \<open>
  Claim C2. The branch for several trials, if it were entered with \<open>trials = 1\<close>, does
  what the branch for one trial does: the same result or the same error, row for row, and
  the same store and calls. (\<open>runSimulation\<close> itself never enters it with one trial.)
\<close>

theorem multiTrialPath_one_eq_singleTrialPath:
  "multiTrialPath ex sim network max_time 1 initialInfections w =
   singleTrialPath ex sim network max_time initialInfections w"
  by (simp add: multiTrialPath_def range_py_def trialLoop_Cons trialLoop_Nil
      singleTrialPath_oneTrial reset_set_index total_idiv_one split: prod.splits sum.splits)

subsection \<open>Averaging\<close>



subsection \<open>The keys of the average\<close>

text \<open>
  Claim C7. Let \<open>trials > 1\<close>, let every trial succeed and let the frames of the trials
  have unique keys and the same set of keys. Then the keys of the frame that
  \<open>runSimulation\<close> returns are unique and are the keys of the frame of any trial
  \<open>j\<close>: the aggregation and the division add no key and lose none.
\<close>

theorem runSimulation_keys:
  assumes "1 < trials"
    and "a < length (heap w)"
    and "\<forall>i<nat trials. i < length infs
            \<and> (ex :: 'infection \<Rightarrow> 'st \<Rightarrow> 'e + 'st) (infs ! i) (initialState (heap w ! a)) = Inr (E i)
            \<and> sim ((heap w ! a)\<lparr>initialState := E i\<rparr>) mt = Inr (R i, N i)"
    and "\<forall>i<nat trials. distinct (map key_of (R i)) \<and> key_of ` set (R i) = K"
    and "j < nat trials"
  shows "\<exists>out. fst (runSimulation ex sim a mt trials infs w) = Inr out
           \<and> distinct (map key_of out)
           \<and> key_of ` set out = key_of ` set (R j)"
proof -
  have n: "0 < nat trials" using assms(1) by simp
  have "\<forall>i<nat trials. i < length infs
            \<and> ex (infs ! i) (initialState (heap w ! a)) = Inr (E i)
            \<and> sim ((heap w ! a)\<lparr>initialState := E i\<rparr>) mt = Inr (R i, N i)
            \<and> distinct (map fst (set_index (R i)))"
    using assms(3,4) by (simp add: keys_set_index)
  from runSimulation_multi [where ex = ex and sim = sim and E = E and R = R and N = N
      and infs = infs and mt = mt, OF assms(1,2) this]
  have run: "fst (runSimulation ex sim a mt trials infs w) = Inr (averaged_rows R trials)"
    by simp
  have d0: "distinct (map key_of (R 0))" and k0: "key_of ` set (R 0) = K"
    using assms(4) n by blast+
  have kj: "key_of ` set (R j) = K"
    using assms(4,5) by blast
  have "set (map key_of (averaged_rows R trials)) = set (map key_of (R 0))"
    by (simp only: keys_averaged_rows)
  then have "key_of ` set (averaged_rows R trials) = key_of ` set (R j)"
    using k0 kj by simp
  moreover have "distinct (map key_of (averaged_rows R trials))"
    using d0 by (simp only: keys_averaged_rows)
  ultimately show ?thesis using run by blast
qed

theorem runSimulation_keys_witness:
  "\<exists>out. fst (runSimulation toy_exposeRegions toy_simulation 0 0 3 [10, 20, 30] toy_world) = Inr out
     \<and> distinct (map key_of out)
     \<and> key_of ` set out = key_of ` set (toy_frame (toy_state 2))"
  using runSimulation_keys [where ex = toy_exposeRegions and sim = toy_simulation and a = 0
      and mt = 0 and trials = 3 and infs = "[10, 20, 30]" and w = toy_world
      and E = toy_state and R = "\<lambda>i. toy_frame (toy_state i)"
      and N = "\<lambda>i. \<lparr>initialState = toy_state i, rest = ()\<rparr>"
      and K = "{(0, ''n'', ''a'', ''S''), (0, ''n'', ''a'', ''I'')}"
      and j = 2]
  by (simp add: numeral_3_eq_3 All_less_Suc toy_world_def toy_exposeRegions_def
      toy_simulation_def toy_frame_def toy_state_def key_of_def)

subsection \<open>The scenario with three trials\<close>

text \<open>
  Claim C8. One node, one age group, the compartments S and I, time horizon 0 and three
  trials whose frames at time 0 hold I = 10, 20, 30 and S = 990, 980, 970:
  \<open>runSimulation\<close> returns S = 980 and I = 20 at time 0.
\<close>

theorem runSimulation_scenario:
  assumes "a < length (heap w)"
    and "\<forall>i<3. i < length infs
           \<and> (ex :: 'infection \<Rightarrow> 'st \<Rightarrow> 'e + 'st) (infs ! i) (initialState (heap w ! a)) = Inr (E i)
           \<and> sim ((heap w ! a)\<lparr>initialState := E i\<rparr>) 0 =
               Inr ([\<lparr>time = 0, node = nd, age = ag, state = ''S'', total = Val ([990, 980, 970] ! i)\<rparr>,
                     \<lparr>time = 0, node = nd, age = ag, state = ''I'', total = Val ([10, 20, 30] ! i)\<rparr>],
                    N i)"
  shows "fst (runSimulation ex sim a 0 3 infs w) =
           Inr [\<lparr>time = 0, node = nd, age = ag, state = ''S'', total = Val 980\<rparr>,
                \<lparr>time = 0, node = nd, age = ag, state = ''I'', total = Val 20\<rparr>]"
proof -
  let ?R = "\<lambda>i. [\<lparr>time = 0, node = nd, age = ag, state = ''S'', total = Val ([990, 980, 970] ! i)\<rparr>,
                 \<lparr>time = 0, node = nd, age = ag, state = ''I'', total = Val ([10, 20, 30] ! i)\<rparr>]"
  have "\<forall>i<nat 3. i < length infs
            \<and> ex (infs ! i) (initialState (heap w ! a)) = Inr (E i)
            \<and> sim ((heap w ! a)\<lparr>initialState := E i\<rparr>) 0 = Inr (?R i, N i)
            \<and> distinct (map fst (set_index (?R i)))"
    using assms(2) by (simp add: set_index_def)
  from runSimulation_multi [where ex = ex and sim = sim and E = E and R = ?R and N = N
      and infs = infs and mt = 0 and trials = 3, OF _ assms(1) this]
  have "fst (runSimulation ex sim a 0 3 infs w) = Inr (averaged_rows ?R 3)"
    by simp
  moreover have "averaged_rows ?R 3 =
           [\<lparr>time = 0, node = nd, age = ag, state = ''S'', total = Val 980\<rparr>,
            \<lparr>time = 0, node = nd, age = ag, state = ''I'', total = Val 20\<rparr>]"
    by (simp add: averaged_rows_def upt_rec numeral_3_eq_3 total_at_def set_index_def key_of_def)
  ultimately show ?thesis by simp
qed

theorem runSimulation_scenario_witness:
  "fst (runSimulation toy_exposeRegions toy_simulation 0 0 3 [10, 20, 30] toy_world) =
     Inr [\<lparr>time = 0, node = ''n'', age = ''a'', state = ''S'', total = Val 980\<rparr>,
          \<lparr>time = 0, node = ''n'', age = ''a'', state = ''I'', total = Val 20\<rparr>]"
  using runSimulation_scenario [where ex = toy_exposeRegions and sim = toy_simulation and a = 0
      and infs = "[10, 20, 30]" and w = toy_world and E = toy_state
      and N = "\<lambda>i. \<lparr>initialState = toy_state i, rest = ()\<rparr>" and nd = "''n''" and ag = "''a''"]
  by (simp add: numeral_3_eq_3 All_less_Suc toy_world_def toy_exposeRegions_def
      toy_simulation_def toy_frame_def toy_state_def)

subsection \<open>Trials with different keys\<close>

text \<open>
  Claim C4 says that \<open>runSimulation\<close> fails when the key space of a trial differs
  from that of the accumulator. It does not: line 98 adds by label and nothing compares
  the key spaces. With the frames S = 1000 and then S = 990, I = 10 it returns the single
  row S = 995 and the key I is gone; with the two frames in the other order it returns
  S = 995 and I = \<^verbatim>\<open>NaN\<close>.
\<close>

theorem runSimulation_key_mismatch_counterexample:
  "fst (runSimulation toy_exposeRegions sparse_simulation 0 0 2 [0, 10] toy_world) =
     Inr [\<lparr>time = 0, node = ''n'', age = ''a'', state = ''S'', total = Val 995\<rparr>]
   \<and> fst (runSimulation toy_exposeRegions sparse_simulation 0 0 2 [10, 0] toy_world) =
     Inr [\<lparr>time = 0, node = ''n'', age = ''a'', state = ''S'', total = Val 995\<rparr>,
          \<lparr>time = 0, node = ''n'', age = ''a'', state = ''I'', total = NaN\<rparr>]"
  by (simp add: runSimulation_def multiTrialPath_def range_py_def upt_rec trialLoop_Cons
      trialLoop_Nil oneTrial_def deepcopy_def getitem_def exposeRegions_def
      basicSimulationInternalAgeStructure_def toy_exposeRegions_def sparse_simulation_def
      toy_frame_def toy_world_def set_index_def series_iadd_def reset_index_def total_idiv_def
      Let_def)

text \<open>
  Claim C4 as amended. Let \<open>trials > 1\<close>, let every trial succeed and let each frame
  have unique keys, the key spaces being the same or not. Then \<open>runSimulation\<close>
  returns a frame and no error; the frame has the keys of the first trial, in its order,
  so a key that only later trials have is dropped; and the total of a key that some trial
  lacks is \<^verbatim>\<open>NaN\<close>, not a number.
\<close>

theorem runSimulation_key_mismatch:
  assumes "1 < trials"
    and "a < length (heap w)"
    and "\<forall>i<nat trials. i < length infs
            \<and> (ex :: 'infection \<Rightarrow> 'st \<Rightarrow> 'e + 'st) (infs ! i) (initialState (heap w ! a)) = Inr (E i)
            \<and> sim ((heap w ! a)\<lparr>initialState := E i\<rparr>) mt = Inr (R i, N i)"
    and "\<forall>i<nat trials. distinct (map key_of (R i))"
  shows "\<exists>out. fst (runSimulation ex sim a mt trials infs w) = Inr out
           \<and> map key_of out = map key_of (R 0)
           \<and> (\<forall>r\<in>set out. (\<exists>i<nat trials. key_of r \<notin> key_of ` set (R i)) \<longrightarrow> total r = NaN)"
proof -
  let ?n = "nat trials"
  have "\<forall>i<?n. i < length infs
            \<and> ex (infs ! i) (initialState (heap w ! a)) = Inr (E i)
            \<and> sim ((heap w ! a)\<lparr>initialState := E i\<rparr>) mt = Inr (R i, N i)
            \<and> distinct (map fst (set_index (R i)))"
    using assms(3,4) by (simp add: keys_set_index)
  from runSimulation_multi [where ex = ex and sim = sim and E = E and R = R and N = N
      and infs = infs and mt = mt, OF assms(1,2) this]
  have run: "fst (runSimulation ex sim a mt trials infs w) = Inr (averaged_rows R trials)"
    by simp
  have nan: "total r = NaN"
    if "r \<in> set (averaged_rows R trials)" and "i < ?n" and "key_of r \<notin> key_of ` set (R i)" for r i
  proof -
    from that(1) obtain r0 where r0: "r0 \<in> set (R 0)"
      and r: "r = r0\<lparr>total := fdiv (foldl fadd (total r0)
                   (map (\<lambda>i. total_at (set_index (R i)) (key_of r0)) [1..<?n])) trials\<rparr>"
      by (auto simp: averaged_rows_def)
    have k: "key_of r = key_of r0"
      by (simp add: r key_of_total_update)
    with that(3) r0 have "i \<noteq> 0"
      by (metis imageI)
    with that(2) have "i \<in> set [1..<?n]"
      by simp
    moreover have "total_at (set_index (R i)) (key_of r0) = NaN"
      using that(3) k by (simp add: total_at_missing)
    ultimately have "NaN \<in> set (map (\<lambda>i. total_at (set_index (R i)) (key_of r0)) [1..<?n])"
      by (metis (no_types, lifting) image_eqI set_map)
    then have "foldl fadd (total r0)
                 (map (\<lambda>i. total_at (set_index (R i)) (key_of r0)) [1..<?n]) = NaN"
      by (rule foldl_fadd_has_NaN)
    then show ?thesis by (simp add: r)
  qed
  show ?thesis
    using run nan keys_averaged_rows by blast
qed

theorem runSimulation_key_mismatch_witness:
  "\<exists>out. fst (runSimulation toy_exposeRegions sparse_simulation 0 0 2 [10, 0] toy_world) = Inr out
     \<and> map key_of out = [(0, ''n'', ''a'', ''S''), (0, ''n'', ''a'', ''I'')]
     \<and> total (out ! 1) = NaN"
  using runSimulation_key_mismatch [where ex = toy_exposeRegions and sim = sparse_simulation
      and a = 0 and mt = 0 and trials = 2 and infs = "[10, 0]" and w = toy_world
      and E = "\<lambda>i. if i = 0 then (990, 10) else (1000, 0)"
      and R = "\<lambda>i. if i = 0 then toy_frame (990, 10) else [hd (toy_frame (1000, 0))]"
      and N = "\<lambda>i. \<lparr>initialState = if i = 0 then (990, 10) else (1000, 0), rest = ()\<rparr>"]
  by (auto simp: numeral_2_eq_2 All_less_Suc toy_world_def toy_exposeRegions_def
      sparse_simulation_def toy_frame_def key_of_def)

subsection \<open>The branch for one trial\<close>

text \<open>
  Claim C5. Let \<open>trials \<le> 1\<close>, let there be a first infection set and let the two calls
  into the model succeed. Then \<open>runSimulation\<close> makes one deep copy of the template,
  hands the first infection set and the initial state of the copy to
  \<^verbatim>\<open>exposeRegions\<close>, runs the model once, on the copy, and returns the frame of
  the model as it is: these three calls are all the calls, and the store has one more
  object, the copy as the model left it.
\<close>

theorem runSimulation_single_trial:
  assumes "trials \<le> 1"
    and "initialInfections = infection # others"
    and "ex infection (initialState (heap w ! network)) = Inr st'"
    and "sim ((heap w ! network)\<lparr>initialState := st'\<rparr>) max_time = Inr (df, net')"
  shows "runSimulation ex sim network max_time trials initialInfections w =
           (Inr df,
            \<lparr>heap = heap w @ [net'],
             calls = calls w @ [DeepCopy network (length (heap w)),
                                ExposeRegions (length (heap w)) infection
                                  (initialState (heap w ! network)),
                                BasicSimulation (length (heap w)) max_time]\<rparr>)"
  using assms
    oneTrial_success [where i = 0 and infs = initialInfections and ex = ex and sim = sim
      and w = w and a = network and st' = st' and mt = max_time and df = df and net' = net']
  by (simp add: runSimulation_def singleTrialPath_oneTrial)

theorem runSimulation_single_trial_witness:
  "runSimulation toy_exposeRegions toy_simulation 0 0 1 [10, 20] toy_world =
     (Inr (toy_frame (990, 10)),
      \<lparr>heap = [\<lparr>initialState = (1000, 0), rest = ()\<rparr>, \<lparr>initialState = (990, 10), rest = ()\<rparr>],
       calls = [DeepCopy 0 1, ExposeRegions 1 10 (1000, 0), BasicSimulation 1 0]\<rparr>)"
  using runSimulation_single_trial [where trials = 1 and initialInfections = "[10, 20]"
      and infection = 10 and others = "[20]" and ex = toy_exposeRegions and sim = toy_simulation
      and w = toy_world and network = 0 and st' = "(990, 10)" and max_time = 0
      and df = "toy_frame (990, 10)" and net' = "\<lparr>initialState = (990, 10), rest = ()\<rparr>"]
  by (simp add: toy_world_def toy_exposeRegions_def toy_simulation_def)

text \<open>
  Claim C9. Let \<open>trials \<le> 1\<close>. The further infection sets are not read: the outcome
  with the sequence \<open>infection # others\<close> is the outcome with the sequence
  \<open>[infection]\<close>. With the empty sequence the call ends in an
  \<^verbatim>\<open>IndexError\<close> at the first access; by then the deep copy has been made and the
  model has not been called.
\<close>

theorem runSimulation_single_trial_first_only:
  assumes "trials \<le> 1"
  shows "runSimulation ex sim network max_time trials (infection # others) w =
           runSimulation ex sim network max_time trials [infection] w
         \<and> runSimulation ex sim network max_time trials [] w =
             (Inl IndexError,
              \<lparr>heap = heap w @ [heap w ! network],
               calls = calls w @ [DeepCopy network (length (heap w))]\<rparr>)"
  using assms
  by (simp add: runSimulation_def singleTrialPath_oneTrial oneTrial_IndexError)
     (simp add: oneTrial_def getitem_def)

theorem runSimulation_single_trial_first_only_witness:
  "runSimulation toy_exposeRegions toy_simulation 0 0 1 [10, 20, 30] toy_world =
     runSimulation toy_exposeRegions toy_simulation 0 0 1 [10] toy_world
   \<and> runSimulation toy_exposeRegions toy_simulation 0 0 1 [] toy_world =
       (Inl IndexError,
        \<lparr>heap = [\<lparr>initialState = (1000, 0), rest = ()\<rparr>, \<lparr>initialState = (1000, 0), rest = ()\<rparr>],
         calls = [DeepCopy 0 1]\<rparr>)"
  using runSimulation_single_trial_first_only [where trials = 1 and ex = toy_exposeRegions
      and sim = toy_simulation and network = 0 and max_time = 0 and infection = 10
      and others = "[20, 30]" and w = toy_world]
  by (simp add: toy_world_def)

subsection \<open>No check of the trial count\<close>

text \<open>
  Claim C3 says that a trial count that is not positive, or that differs from the number
  of infection sets, makes the call fail before any trial runs. It does not. With
  \<open>trials = 0\<close> and one infection set the call succeeds: it copies, exposes and runs
  the model. With \<open>trials = 5\<close> and one infection set the first trial runs in full and
  the second copy is made before the \<^verbatim>\<open>IndexError\<close>. With \<open>trials = 2\<close> and
  three infection sets the call returns the average of the first two trials.
\<close>

theorem runSimulation_no_validation_counterexample:
  "runSimulation toy_exposeRegions toy_simulation 0 0 0 [10] toy_world =
     (Inr (toy_frame (990, 10)),
      \<lparr>heap = [\<lparr>initialState = (1000, 0), rest = ()\<rparr>, \<lparr>initialState = (990, 10), rest = ()\<rparr>],
       calls = [DeepCopy 0 1, ExposeRegions 1 10 (1000, 0), BasicSimulation 1 0]\<rparr>)
   \<and> runSimulation toy_exposeRegions toy_simulation 0 0 5 [10] toy_world =
     (Inl IndexError,
      \<lparr>heap = [\<lparr>initialState = (1000, 0), rest = ()\<rparr>, \<lparr>initialState = (990, 10), rest = ()\<rparr>,
               \<lparr>initialState = (1000, 0), rest = ()\<rparr>],
       calls = [DeepCopy 0 1, ExposeRegions 1 10 (1000, 0), BasicSimulation 1 0, DeepCopy 0 2]\<rparr>)
   \<and> fst (runSimulation toy_exposeRegions toy_simulation 0 0 2 [10, 20, 30] toy_world) =
     Inr (toy_frame (985, 15))"
  by (simp add: runSimulation_def singleTrialPath_def multiTrialPath_def range_py_def upt_rec
      trialLoop_Cons trialLoop_Nil oneTrial_def deepcopy_def getitem_def exposeRegions_def
      basicSimulationInternalAgeStructure_def toy_exposeRegions_def toy_simulation_def
      toy_frame_def toy_world_def set_index_def series_iadd_def reset_index_def total_idiv_def
      Let_def)

text \<open>
  Claim C3 as amended. Let \<open>trials > 1\<close> and let there be fewer infection sets than
  trials. Then the call ends in an error and returns no frame. It does not fail before
  the trials: when the trials that have an infection set succeed, with unique keys, the
  error is the \<^verbatim>\<open>IndexError\<close> of the first trial without an infection set, and by
  then every earlier trial has been copied, exposed and run, and the copy for that trial
  has been made.
\<close>

theorem runSimulation_too_few_infections:
  assumes "1 < trials" and "length infs < nat trials"
  shows "(\<exists>e. fst (runSimulation ex sim a mt trials infs w) = Inl e)
       \<and> (a < length (heap w)
          \<and> (\<forall>i<length infs.
                (ex :: 'infection \<Rightarrow> 'st \<Rightarrow> 'e + 'st) (infs ! i) (initialState (heap w ! a)) = Inr (E i)
              \<and> sim ((heap w ! a)\<lparr>initialState := E i\<rparr>) mt = Inr (R i, N i)
              \<and> distinct (map key_of (R i)))
          \<longrightarrow> runSimulation ex sim a mt trials infs w =
                (Inl IndexError,
                 \<lparr>heap = heap w @ map N [0..<length infs] @ [heap w ! a],
                  calls = calls w
                    @ trialCalls a (initialState (heap w ! a)) mt infs (length (heap w)) [0..<length infs]
                    @ [DeepCopy a (length (heap w) + length infs)]\<rparr>))"
proof (intro conjI impI)
  let ?m = "length infs"
  have "\<exists>i\<in>set (range_py trials). \<not> i < ?m"
    using assms(2) by (auto simp: range_py_def)
  from trialLoop_bad_index [OF this, of ex sim a mt None w]
  show "\<exists>e. fst (runSimulation ex sim a mt trials infs w) = Inl e"
    using assms(1) by (auto simp: runSimulation_def multiTrialPath_def)
next
  let ?m = "length infs"
  let ?w1 = "\<lparr>heap = heap w @ map N [0..<?m],
              calls = calls w @ trialCalls a (initialState (heap w ! a)) mt infs (length (heap w)) [0..<?m]\<rparr>"
  assume h: "a < length (heap w)
          \<and> (\<forall>i<?m. ex (infs ! i) (initialState (heap w ! a)) = Inr (E i)
              \<and> sim ((heap w ! a)\<lparr>initialState := E i\<rparr>) mt = Inr (R i, N i)
              \<and> distinct (map key_of (R i)))"
  then have a: "a < length (heap w)" by simp
  have split: "range_py trials = [0..<?m] @ ?m # [Suc ?m..<nat trials]"
    unfolding range_py_def using assms(2) by (rule upt_split_at)
  have "\<forall>i\<in>set [0..<?m]. i < ?m
            \<and> ex (infs ! i) (initialState (heap w ! a)) = Inr (E i)
            \<and> sim ((heap w ! a)\<lparr>initialState := E i\<rparr>) mt = Inr (R i, N i)
            \<and> distinct (map fst (set_index (R i)))"
    using h by (simp add: keys_set_index)
  from trialLoop_success [where ex = ex and sim = sim and E = E and R = R and N = N
      and infs = infs and mt = mt and aggregated = None and tmpl = "heap w ! a", OF a refl this]
  have first: "trialLoop ex sim a mt infs [0..<?m] None w =
           (Inr (foldl accumulate None (map (\<lambda>i. set_index (R i)) [0..<?m])), ?w1)"
    by (simp add: keys_distinct_def)
  have last: "oneTrial ex sim a mt infs ?m ?w1 =
           (Inl IndexError,
            \<lparr>heap = heap ?w1 @ [heap ?w1 ! a], calls = calls ?w1 @ [DeepCopy a (length (heap ?w1))]\<rparr>)"
    by (rule oneTrial_IndexError) simp
  have "trialLoop ex sim a mt infs (range_py trials) None w =
           (Inl IndexError,
            \<lparr>heap = heap ?w1 @ [heap ?w1 ! a], calls = calls ?w1 @ [DeepCopy a (length (heap ?w1))]\<rparr>)"
    by (simp only: split trialLoop_append first trialLoop_Cons last prod.case sum.case)
  then show "runSimulation ex sim a mt trials infs w =
                (Inl IndexError,
                 \<lparr>heap = heap w @ map N [0..<?m] @ [heap w ! a],
                  calls = calls w
                    @ trialCalls a (initialState (heap w ! a)) mt infs (length (heap w)) [0..<?m]
                    @ [DeepCopy a (length (heap w) + ?m)]\<rparr>)"
    using assms(1) a by (simp add: runSimulation_def multiTrialPath_def nth_append)
qed

theorem runSimulation_too_few_infections_witness:
  "(\<exists>e. fst (runSimulation toy_exposeRegions toy_simulation 0 0 5 [10] toy_world) = Inl e)
   \<and> runSimulation toy_exposeRegions toy_simulation 0 0 5 [10] toy_world =
       (Inl IndexError,
        \<lparr>heap = [\<lparr>initialState = (1000, 0), rest = ()\<rparr>, \<lparr>initialState = (990, 10), rest = ()\<rparr>,
                 \<lparr>initialState = (1000, 0), rest = ()\<rparr>],
         calls = [DeepCopy 0 1, ExposeRegions 1 10 (1000, 0), BasicSimulation 1 0, DeepCopy 0 2]\<rparr>)"
  using runSimulation_too_few_infections [where trials = 5 and infs = "[10]"
      and ex = toy_exposeRegions and sim = toy_simulation and a = 0 and mt = 0 and w = toy_world
      and E = "\<lambda>i. (990, 10)" and R = "\<lambda>i. toy_frame (990, 10)"
      and N = "\<lambda>i. \<lparr>initialState = (990, 10), rest = ()\<rparr>"]
  by (simp add: toy_world_def toy_exposeRegions_def toy_simulation_def toy_frame_def key_of_def)

subsection \<open>The template and the trials are isolated\<close>

text \<open>
  Claim C6. For every call of \<open>runSimulation\<close>, whatever the trial count and the
  infection sets and whether it fails or not: the objects that the store held before the
  call, the template among them, are unchanged after it (the store has only grown), and
  the calls made satisfy \<open>isolated\<close>: each trial copies the template to a new address,
  the model acts on the newest copy only, and \<^verbatim>\<open>exposeRegions\<close> is always handed
  the initial state of the template, as it was before the call, and the infection set of
  its own trial.
\<close>

theorem runSimulation_isolation:
  assumes "network < length (heap w)"
  shows "\<exists>xs cs.
           heap (snd (runSimulation ex sim network max_time trials initialInfections w)) = heap w @ xs
         \<and> calls (snd (runSimulation ex sim network max_time trials initialInfections w)) = calls w @ cs
         \<and> isolated network (initialState (heap w ! network)) initialInfections
              (length (heap w)) (length (heap w)) None cs"
proof (cases "trials \<le> 1")
  case True
  from oneTrial_isolated [of w "length (heap w)" 0 ex sim network max_time initialInfections]
  obtain x cs where "heap (snd (oneTrial ex sim network max_time initialInfections 0 w)) = heap w @ [x]"
    and "calls (snd (oneTrial ex sim network max_time initialInfections 0 w)) = calls w @ cs"
    and "\<And>cur more_calls.
           isolated network (initialState (heap w ! network)) initialInfections (length (heap w))
             (length (heap w)) cur (cs @ more_calls)
           = isolated network (initialState (heap w ! network)) initialInfections (length (heap w))
               (Suc (length (heap w))) (Some (length (heap w))) more_calls"
    by auto
  moreover from this(3) [of None "[]"]
  have "isolated network (initialState (heap w ! network)) initialInfections (length (heap w))
          (length (heap w)) None cs"
    by simp
  ultimately show ?thesis
    using True by (auto simp: runSimulation_def singleTrialPath_oneTrial)
next
  case False
  from trialLoop_isolated [OF assms, of "length (heap w)" 0 ex sim max_time initialInfections
      "nat trials" None]
  show ?thesis
    using False by (auto simp: runSimulation_def multiTrialPath_snd range_py_def)
qed

theorem runSimulation_isolation_witness:
  "\<exists>xs cs.
     heap (snd (runSimulation toy_exposeRegions toy_simulation 0 0 3 [10, 20, 30] toy_world))
       = heap toy_world @ xs
   \<and> calls (snd (runSimulation toy_exposeRegions toy_simulation 0 0 3 [10, 20, 30] toy_world))
       = calls toy_world @ cs
   \<and> isolated 0 (initialState (heap toy_world ! 0)) [10, 20, 30]
        (length (heap toy_world)) (length (heap toy_world)) None cs"
  using runSimulation_isolation [where network = 0 and w = toy_world and ex = toy_exposeRegions
      and sim = toy_simulation and max_time = 0 and trials = 3 and initialInfections = "[10, 20, 30]"]
  by (simp add: toy_world_def)

subsection \<open>The type of the region count\<close>

text \<open>
  Claim C10. \<^verbatim>\<open>--regions\<close> is declared with the default 1, an integer, and with
  no \<^verbatim>\<open>type\<close>. So in every call of \<^verbatim>\<open>randomlyInfectRegions\<close> that
  \<^verbatim>\<open>main\<close> makes after a successful parse, the region count is a string when the
  option occurs on the command line and the integer 1 when it does not.
\<close>

theorem regions_untyped:
  assumes "parse_args py_int randomCmd occurrences = Inr args"
    and "main_random args = Inr seeding"
    and "c \<in> set seeding"
  shows "\<exists>regions age_groups infected.
           c = RandomlyInfectRegions regions age_groups infected
         \<and> (''regions'' \<in> fst ` set occurrences \<longrightarrow> (\<exists>s. regions = PyStr s))
         \<and> (''regions'' \<notin> fst ` set occurrences \<longrightarrow> regions = PyInt 1)"
  using parse_args_regions [OF assms(1)] assms(2,3)
  by (auto simp: main_random_def getattr_def split: option.splits sum.splits pyval.splits if_splits)

theorem regions_untyped_witness:
  "(case parse_args digits_int randomCmd [(''regions'', [''3'']), (''trials'', [''2''])] of
      Inl e \<Rightarrow> Inl e | Inr args \<Rightarrow> main_random args) =
     Inr [RandomlyInfectRegions (PyStr ''3'') (PyList [PyStr ''[17,70)'']) (PyInt 100),
          RandomlyInfectRegions (PyStr ''3'') (PyList [PyStr ''[17,70)'']) (PyInt 100)]
   \<and> (case parse_args digits_int randomCmd [(''trials'', [''2''])] of
      Inl e \<Rightarrow> Inl e | Inr args \<Rightarrow> main_random args) =
     Inr [RandomlyInfectRegions (PyInt 1) (PyList [PyStr ''[17,70)'']) (PyInt 100),
          RandomlyInfectRegions (PyInt 1) (PyList [PyStr ''[17,70)'']) (PyInt 100)]"
  using regions_untyped [where py_int = digits_int
      and occurrences = "[(''regions'', [''3'']), (''trials'', [''2''])]"
      and args = "projr (parse_args digits_int randomCmd [(''regions'', [''3'']), (''trials'', [''2''])])"
      and seeding = "[RandomlyInfectRegions (PyStr ''3'') (PyList [PyStr ''[17,70)'']) (PyInt 100),
          RandomlyInfectRegions (PyStr ''3'') (PyList [PyStr ''[17,70)'']) (PyInt 100)]"
      and c = "RandomlyInfectRegions (PyStr ''3'') (PyList [PyStr ''[17,70)'']) (PyInt 100)"]
  by (simp add: parse_args_def randomCmd_def get_values_def get_value_def digits_int_def
      main_random_def getattr_def numeral_2_eq_2)

end
